theory Spec2Isabelle
  imports Main
begin

section \<open>The system diagram of the catalog plugin\<close>

text \<open>
  The development follows \<^verbatim>\<open>plugins/catalog/src/components/SystemDiagramCard/SystemDiagramCard.tsx\<close>:
  the helper \<^verbatim>\<open>simplifiedEntityName\<close> (the spec's \<^verbatim>\<open>normalizeRef\<close>) and the
  construction of the arrays \<^verbatim>\<open>systemNodes\<close> and \<^verbatim>\<open>systemEdges\<close> in the body of
  \<^verbatim>\<open>SystemDiagramCard\<close> (the spec's \<^verbatim>\<open>buildGraph\<close>).

  Text is a list of code units. A \<^typ>\<open>char\<close> holds the code units 0 to 255, read as
  Latin-1, which covers every character an entity kind, namespace or name is made of.
\<close>

subsection \<open>Data\<close>

text \<open>
  The argument of \<^verbatim>\<open>simplifiedEntityName\<close> is an \<^verbatim>\<open>Entity\<close> or a compound reference
  \<^verbatim>\<open>{kind, namespace, name}\<close>. An entity carries the same three parts (its \<^verbatim>\<open>kind\<close>,
  \<^verbatim>\<open>metadata.namespace\<close> and \<^verbatim>\<open>metadata.name\<close>) and its relations, so it is the
  extension of the reference record and the helper is defined once, on every extension.
  The namespace may be missing. Every value that reaches the helper in this file is an
  entity or the target of a relation, and both have a kind.
\<close>

record EntityName =
  kind :: string
  namespace :: "string option"
  name :: string

record EntityRelation =
  rtype :: string
  target :: EntityName

record Entity = EntityName +
  relations :: "EntityRelation list"

text \<open>An element of \<^verbatim>\<open>systemNodes\<close> is \<^verbatim>\<open>{id}\<close>, one of \<^verbatim>\<open>systemEdges\<close> is \<^verbatim>\<open>{from, to, label}\<close>.\<close>

record GraphNode =
  node_id :: string

record GraphEdge =
  edge_from :: string
  edge_to :: string
  edge_label :: string

text \<open>The two arrays the component fills.\<close>

record Diagram =
  systemNodes :: "GraphNode list"
  systemEdges :: "GraphEdge list"

subsection \<open>Strings\<close>

text \<open>
  \<^verbatim>\<open>toLocaleLowerCase('en-US')\<close> on one code unit: the letters A to Z and the Latin-1
  capitals U+00C0 to U+00DE, without the multiplication sign U+00D7, move up by 32; every
  other code unit below 256 is its own lower case.
\<close>

definition lowerChar :: "char \<Rightarrow> char" where
  "lowerChar c =
     (let n = (of_char c :: nat)
      in if (65 \<le> n \<and> n \<le> 90) \<or> (192 \<le> n \<and> n \<le> 222 \<and> n \<noteq> 215)
         then char_of (n + 32) else c)"

definition toLocaleLowerCase :: "string \<Rightarrow> string" where
  "toLocaleLowerCase s = map lowerChar s"

text \<open>
  \<^verbatim>\<open>s.replace(pat, rep)\<close> with a string pattern: the first occurrence of \<^verbatim>\<open>pat\<close>,
  scanning from the left, is replaced and the rest is kept; without an occurrence the
  string is returned as it is. (The replacement used here has no \<^verbatim>\<open>$\<close> in it.)
\<close>

fun replace :: "string \<Rightarrow> string \<Rightarrow> string \<Rightarrow> string" where
  "replace pat rep [] = (if pat = [] then rep else [])"
| "replace pat rep (c # s) =
     (if take (length pat) (c # s) = pat then rep @ drop (length pat) (c # s)
      else c # replace pat rep s)"

subsection \<open>What the file imports from the catalog model\<close>

text \<open>
  Modelled from the spec: the constant \<^verbatim>\<open>RELATION_PART_OF\<close> of the package
  \<^verbatim>\<open>@backstage/catalog-model\<close> is not part of the file. The spec names three relation
  kinds, "part of", "provides API" and "depends on", tagged on each relation as a
  free-form string; this tag stands for "part of".
\<close>

definition RELATION_PART_OF :: string where
  "RELATION_PART_OF = ''partOf''"

text \<open>
  Modelled from the spec: the constant \<^verbatim>\<open>RELATION_PROVIDES_API\<close> of the same package is
  not part of the file; this tag stands for the spec's relation kind "provides API".
\<close>

definition RELATION_PROVIDES_API :: string where
  "RELATION_PROVIDES_API = ''providesApi''"

text \<open>
  Modelled from the spec: the constant \<^verbatim>\<open>RELATION_DEPENDS_ON\<close> of the same package is
  not part of the file; this tag stands for the spec's relation kind "depends on". The
  three tags are pairwise different.
\<close>

definition RELATION_DEPENDS_ON :: string where
  "RELATION_DEPENDS_ON = ''dependsOn''"

text \<open>
  Modelled from the spec: the default namespace, the "well-known value" a missing namespace
  stands for. The pattern \<^verbatim>\<open>':default/'\<close> of \<^verbatim>\<open>simplifiedEntityName\<close> spells it out.
\<close>

definition ENTITY_DEFAULT_NAMESPACE :: string where
  "ENTITY_DEFAULT_NAMESPACE = ''default''"

text \<open>
  Modelled from the spec: \<^verbatim>\<open>serializeEntityRef\<close> of \<^verbatim>\<open>@backstage/catalog-model\<close> is not
  part of the file. By the spec a reference is written \<^verbatim>\<open>kind:namespace/name\<close>, and a
  missing namespace defaults to the well-known value. The letter case is left as it is
  (lowering it is the next step of \<^verbatim>\<open>simplifiedEntityName\<close>).
\<close>

definition serializeEntityRef :: "'a EntityName_scheme \<Rightarrow> string" where
  "serializeEntityRef ref =
     kind ref @ '':'' @
     (case namespace ref of None \<Rightarrow> ENTITY_DEFAULT_NAMESPACE | Some ns \<Rightarrow> ns) @ ''/'' @
     name ref"

text \<open>
  Modelled from the spec: \<^verbatim>\<open>getEntityRelations\<close> of \<^verbatim>\<open>@backstage/plugin-catalog-react\<close>
  is not part of the file. By the spec an entity exposes outbound relations, each tagged
  with a relation kind and a target reference. The call returns the targets of the
  relations with the given tag, in the entity's relation order, restricted to targets of
  the given kind when a kind filter is passed. The kind is compared without regard to
  letter case: the file passes \<^verbatim>\<open>'domain'\<close> where the catalog writes the kind
  \<^verbatim>\<open>Domain\<close>.
\<close>

definition getEntityRelations :: "Entity \<Rightarrow> string \<Rightarrow> string option \<Rightarrow> EntityName list" where
  "getEntityRelations entity relationType filterKind =
     (let entityNames = map target (filter (\<lambda>r. rtype r = relationType) (relations entity))
      in case filterKind of
           None \<Rightarrow> entityNames
         | Some k \<Rightarrow> filter (\<lambda>e. toLocaleLowerCase (kind e) = toLocaleLowerCase k) entityNames)"

subsection \<open>The helper \<^verbatim>\<open>simplifiedEntityName\<close>\<close>

text \<open>
  Lines 42 to 56: serialise, lower the case, then replace the first \<^verbatim>\<open>':default/'\<close> by
  \<^verbatim>\<open>':'\<close>.
\<close>

definition simplifiedEntityName :: "'a EntityName_scheme \<Rightarrow> string" where
  "simplifiedEntityName ref =
     replace '':default/'' '':'' (toLocaleLowerCase (serializeEntityRef ref))"

subsection \<open>The construction of the diagram\<close>

text \<open>\<^verbatim>\<open>systemNodes.push(n)\<close> and \<^verbatim>\<open>systemEdges.push(e)\<close> append at the end.\<close>

definition pushNode :: "GraphNode \<Rightarrow> Diagram \<Rightarrow> Diagram" where
  "pushNode n d = d\<lparr>systemNodes := systemNodes d @ [n]\<rparr>"

definition pushEdge :: "GraphEdge \<Rightarrow> Diagram \<Rightarrow> Diagram" where
  "pushEdge e d = d\<lparr>systemEdges := systemEdges d @ [e]\<rparr>"

text \<open>\<^verbatim>\<open>xs.forEach(f)\<close> runs \<^verbatim>\<open>f\<close> on each element from the first to the last.\<close>

definition forEach :: "'a list \<Rightarrow> ('a \<Rightarrow> Diagram \<Rightarrow> Diagram) \<Rightarrow> Diagram \<Rightarrow> Diagram" where
  "forEach xs f d = fold f xs d"

text \<open>
  The body of the loop over \<^verbatim>\<open>catalogResponse.items\<close> (lines 104 to 146): the node of the
  item, then its edges for "part of", "provides API" and "depends on".
\<close>

definition catalogItemStep :: "Entity \<Rightarrow> Diagram \<Rightarrow> Diagram" where
  "catalogItemStep catalogItem d =
     (let d1 = pushNode \<lparr>node_id = simplifiedEntityName catalogItem\<rparr> d;
          catalogItemRelations_partOf = getEntityRelations catalogItem RELATION_PART_OF None;
          d2 = forEach catalogItemRelations_partOf (\<lambda>foundRelation.
                 pushEdge \<lparr>edge_from = simplifiedEntityName catalogItem,
                           edge_to = simplifiedEntityName foundRelation,
                           edge_label = ''part of''\<rparr>) d1;
          catalogItemRelations_providesApi =
            getEntityRelations catalogItem RELATION_PROVIDES_API None;
          d3 = forEach catalogItemRelations_providesApi (\<lambda>foundRelation.
                 pushEdge \<lparr>edge_from = simplifiedEntityName catalogItem,
                           edge_to = simplifiedEntityName foundRelation,
                           edge_label = ''provides API''\<rparr>) d2;
          catalogItemRelations_dependsOn =
            getEntityRelations catalogItem RELATION_DEPENDS_ON None
      in forEach catalogItemRelations_dependsOn (\<lambda>foundRelation.
           pushEdge \<lparr>edge_from = simplifiedEntityName catalogItem,
                     edge_to = simplifiedEntityName foundRelation,
                     edge_label = ''depends on''\<rparr>) d3)"

text \<open>
  Lines 65 to 148. \<^verbatim>\<open>catalogResponse\<close> is the value of the asynchronous fetch: \<^term>\<open>None\<close>
  while there is no response with items (the guard of line 102 is then false), otherwise
  the items in the order of the response. Both arrays start empty at each call.
\<close>

definition SystemDiagramCard :: "Entity \<Rightarrow> Entity list option \<Rightarrow> Diagram" where
  "SystemDiagramCard entity catalogResponse =
     (let currentSystemNode = simplifiedEntityName entity;
          d0 = \<lparr>systemNodes = [], systemEdges = []\<rparr>;
          d1 = pushNode \<lparr>node_id = currentSystemNode\<rparr> d0;
          catalogItemDomain = getEntityRelations entity RELATION_PART_OF (Some ''domain'');
          d2 = forEach catalogItemDomain (\<lambda>foundDomain.
                 pushNode \<lparr>node_id = simplifiedEntityName foundDomain\<rparr>) d1;
          d3 = forEach catalogItemDomain (\<lambda>foundDomain.
                 pushEdge \<lparr>edge_from = currentSystemNode,
                           edge_to = simplifiedEntityName foundDomain,
                           edge_label = ''part of''\<rparr>) d2
      in case catalogResponse of
           None \<Rightarrow> d3
         | Some items \<Rightarrow> fold catalogItemStep items d3)"

text \<open>
  The spec's \<^verbatim>\<open>buildGraph(rootEntity, relatedEntities)\<close> is this construction once the
  related entities have arrived: the pair of the node list and the edge list.
\<close>

definition buildGraph :: "Entity \<Rightarrow> Entity list \<Rightarrow> GraphNode list \<times> GraphEdge list" where
  "buildGraph rootEntity relatedEntities =
     (let d = SystemDiagramCard rootEntity (Some relatedEntities)
      in (systemNodes d, systemEdges d))"

subsection \<open>Notions used to state the properties\<close>

text \<open>The edges from one node to a list of targets, all with the same label, in target order.\<close>

definition edgesTo :: "string \<Rightarrow> string \<Rightarrow> EntityName list \<Rightarrow> GraphEdge list" where
  "edgesTo src lbl targets =
     map (\<lambda>t. \<lparr>edge_from = src, edge_to = simplifiedEntityName t, edge_label = lbl\<rparr>) targets"

text \<open>The edges of one related entity: "part of", then "provides API", then "depends on".\<close>

definition itemEdges :: "Entity \<Rightarrow> GraphEdge list" where
  "itemEdges item =
     edgesTo (simplifiedEntityName item) ''part of''
       (getEntityRelations item RELATION_PART_OF None) @
     edgesTo (simplifiedEntityName item) ''provides API''
       (getEntityRelations item RELATION_PROVIDES_API None) @
     edgesTo (simplifiedEntityName item) ''depends on''
       (getEntityRelations item RELATION_DEPENDS_ON None)"

text \<open>A part of a reference that holds neither of the two separators.\<close>

definition plainPart :: "string \<Rightarrow> bool" where
  "plainPart s = (CHR '':'' \<notin> set s \<and> CHR ''/'' \<notin> set s)"

subsection \<open>Example entities\<close>

definition cartRef :: EntityName where
  "cartRef = \<lparr>kind = ''component'', namespace = Some ''default'', name = ''cart''\<rparr>"

definition shopRef :: EntityName where
  "shopRef = \<lparr>kind = ''domain'', namespace = Some ''default'', name = ''shop''\<rparr>"

definition paymentsSystem :: Entity where
  "paymentsSystem =
     \<lparr>kind = ''system'', namespace = Some ''default'', name = ''payments'', relations = []\<rparr>"

definition checkoutComponent :: Entity where
  "checkoutComponent =
     \<lparr>kind = ''component'', namespace = Some ''default'', name = ''checkout'',
      relations = [\<lparr>rtype = RELATION_DEPENDS_ON, target = cartRef\<rparr>]\<rparr>"

definition paymentsInShop :: Entity where
  "paymentsInShop =
     \<lparr>kind = ''system'', namespace = Some ''default'', name = ''payments'',
      relations = [\<lparr>rtype = RELATION_PART_OF, target = shopRef\<rparr>]\<rparr>"



definition shopDomain :: Entity where
  "shopDomain =
     \<lparr>kind = ''domain'', namespace = Some ''default'', name = ''shop'', relations = []\<rparr>"

section \<open>Lower case and replacement\<close>

lemma of_char_lowerChar:
  "(of_char (lowerChar c) :: nat) =
     (if (65 \<le> (of_char c :: nat) \<and> (of_char c :: nat) \<le> 90) \<or>
         (192 \<le> (of_char c :: nat) \<and> (of_char c :: nat) \<le> 222 \<and> (of_char c :: nat) \<noteq> 215)
      then of_char c + 32 else of_char c)"
  by (auto simp add: lowerChar_def Let_def)

text \<open>Lowering the case neither makes nor removes a separator.\<close>

lemma lowerChar_colon: "(lowerChar c = CHR '':'') = (c = CHR '':'')"
proof -
  have "(of_char (lowerChar c) = (58::nat)) = (of_char c = (58::nat))"
    by (simp add: of_char_lowerChar)
  moreover have "(of_char (CHR '':'') :: nat) = 58"
    by simp
  ultimately show ?thesis
    by (metis of_char_eq_iff)
qed

lemma lowerChar_slash: "(lowerChar c = CHR ''/'') = (c = CHR ''/'')"
proof -
  have "(of_char (lowerChar c) = (47::nat)) = (of_char c = (47::nat))"
    by (simp add: of_char_lowerChar)
  moreover have "(of_char (CHR ''/'') :: nat) = 47"
    by simp
  ultimately show ?thesis
    by (metis of_char_eq_iff)
qed

lemma colon_in_lower: "(CHR '':'' \<in> set (toLocaleLowerCase s)) = (CHR '':'' \<in> set s)"
proof (induction s)
  case Nil
  show ?case by (simp add: toLocaleLowerCase_def)
next
  case (Cons c s)
  have "(CHR '':'' = lowerChar c) = (CHR '':'' = c)"
    using lowerChar_colon [of c] by auto
  with Cons show ?case by (simp add: toLocaleLowerCase_def)
qed

lemma slash_in_lower: "(CHR ''/'' \<in> set (toLocaleLowerCase s)) = (CHR ''/'' \<in> set s)"
proof (induction s)
  case Nil
  show ?case by (simp add: toLocaleLowerCase_def)
next
  case (Cons c s)
  have "(CHR ''/'' = lowerChar c) = (CHR ''/'' = c)"
    using lowerChar_slash [of c] by auto
  with Cons show ?case by (simp add: toLocaleLowerCase_def)
qed

lemma lower_append: "toLocaleLowerCase (a @ b) = toLocaleLowerCase a @ toLocaleLowerCase b"
  by (simp add: toLocaleLowerCase_def)

lemma lower_default: "toLocaleLowerCase ''default'' = ''default''"
  by code_simp

lemma lower_domain: "toLocaleLowerCase ''domain'' = ''domain''"
  by code_simp

lemma lower_colon: "toLocaleLowerCase '':'' = '':''"
  by code_simp

lemma lower_slash: "toLocaleLowerCase ''/'' = ''/''"
  by code_simp

text \<open>A string without the first character of the pattern is left as it is.\<close>

lemma replace_absent: "p \<notin> set s \<Longrightarrow> replace (p # ps) rep s = s"
  by (induction s) auto

text \<open>The scan passes over a prefix without the first character of the pattern.\<close>

lemma replace_skip:
  "p \<notin> set k \<Longrightarrow> replace (p # ps) rep (k @ s) = k @ replace (p # ps) rep s"
  by (induction k) auto

lemma replace_hit:
  "replace (p # ps) rep (p # rest) =
     (if take (length ps) rest = ps then rep @ drop (length ps) rest
      else p # replace (p # ps) rep rest)"
  by simp

lemma takeWhile_upto: "x \<notin> set a \<Longrightarrow> takeWhile (\<lambda>c. c \<noteq> x) (a @ x # b) = a"
  by (induction a) auto

text \<open>
  A text that ends at its first \<open>x\<close> starts with \<open>q\<close> followed by \<open>x\<close> only if it is \<open>q\<close>.
\<close>

lemma take_delimited:
  assumes "x \<notin> set a" and "x \<notin> set q"
  shows "(take (length (q @ [x])) (a @ x # b) = q @ [x]) = (a = q)"
proof
  assume "a = q"
  then show "take (length (q @ [x])) (a @ x # b) = q @ [x]" by simp
next
  assume t: "take (length (q @ [x])) (a @ x # b) = q @ [x]"
  define r where "r = drop (length (q @ [x])) (a @ x # b)"
  have "a @ x # b = (q @ [x]) @ r"
    unfolding r_def using t append_take_drop_id [of "length (q @ [x])" "a @ x # b"] by simp
  then have "a @ x # b = q @ x # r"
    by simp
  then have "takeWhile (\<lambda>c. c \<noteq> x) (a @ x # b) = takeWhile (\<lambda>c. c \<noteq> x) (q @ x # r)"
    by simp
  moreover have "takeWhile (\<lambda>c. c \<noteq> x) (a @ x # b) = a"
    using assms(1) by (rule takeWhile_upto)
  moreover have "takeWhile (\<lambda>c. c \<noteq> x) (q @ x # r) = q"
    using assms(2) by (rule takeWhile_upto)
  ultimately show "a = q"
    by simp
qed

text \<open>
  The replacement on a text \<open>k p n x m\<close> whose only \<open>p\<close> is the one shown and whose
  middle part \<open>n\<close> has no \<open>x\<close>: the segment \<open>p q x\<close> is there exactly when \<open>n = q\<close>.
\<close>

lemma replace_segment:
  assumes k: "p \<notin> set k"
    and n: "p \<notin> set n" "x \<notin> set n"
    and m: "p \<notin> set m"
    and q: "x \<notin> set q"
    and px: "p \<noteq> x"
  shows "replace (p # q @ [x]) [p] (k @ p # n @ x # m) =
     (if n = q then k @ p # m else k @ p # n @ x # m)"
proof -
  have 1: "replace (p # q @ [x]) [p] (k @ p # n @ x # m) =
        k @ replace (p # q @ [x]) [p] (p # n @ x # m)"
    using k by (rule replace_skip)
  have "p \<notin> set (n @ x # m)"
    using n m px by simp
  then have 2: "replace (p # q @ [x]) [p] (n @ x # m) = n @ x # m"
    by (rule replace_absent)
  have 3: "(take (length (q @ [x])) (n @ x # m) = q @ [x]) = (n = q)"
    using n(2) q by (rule take_delimited)
  have 4: "replace (p # q @ [x]) [p] (p # n @ x # m) =
        (if n = q then p # m else p # n @ x # m)"
  proof (cases "n = q")
    case True
    then show ?thesis
      using replace_hit [of p "q @ [x]" "[p]" "q @ x # m"] by simp
  next
    case False
    then show ?thesis
      using replace_hit [of p "q @ [x]" "[p]" "n @ x # m"] 2 3 by simp
  qed
  show ?thesis
    unfolding 1 4 by simp
qed

lemma replace_default_segment:
  assumes "CHR '':'' \<notin> set k"
    and "CHR '':'' \<notin> set n" and "CHR ''/'' \<notin> set n"
    and "CHR '':'' \<notin> set m"
  shows "replace '':default/'' '':'' (k @ '':'' @ n @ ''/'' @ m) =
     (if n = ''default'' then k @ '':'' @ m else k @ '':'' @ n @ ''/'' @ m)"
  using replace_segment [of "CHR '':''" k n "CHR ''/''" m "''default''"] assms
  by simp

section \<open>The arrays after each loop\<close>

lemma forEach_pushNode:
  "forEach xs (\<lambda>x. pushNode (f x)) d = d\<lparr>systemNodes := systemNodes d @ map f xs\<rparr>"
  unfolding forEach_def
  by (induction xs arbitrary: d) (simp_all add: pushNode_def)

lemma forEach_pushEdge:
  "forEach xs (\<lambda>x. pushEdge (f x)) d = d\<lparr>systemEdges := systemEdges d @ map f xs\<rparr>"
  unfolding forEach_def
  by (induction xs arbitrary: d) (simp_all add: pushEdge_def)

lemma catalogItemStep_eq:
  "catalogItemStep item d =
     \<lparr>systemNodes = systemNodes d @ [\<lparr>node_id = simplifiedEntityName item\<rparr>],
      systemEdges = systemEdges d @ itemEdges item\<rparr>"
  by (simp add: catalogItemStep_def Let_def forEach_pushEdge pushNode_def itemEdges_def
      edgesTo_def)

lemma fold_catalogItemStep:
  "fold catalogItemStep items d =
     \<lparr>systemNodes = systemNodes d @ map (\<lambda>item. \<lparr>node_id = simplifiedEntityName item\<rparr>) items,
      systemEdges = systemEdges d @ concat (map itemEdges items)\<rparr>"
  by (induction items arbitrary: d) (simp_all add: catalogItemStep_eq)

lemma SystemDiagramCard_None:
  "SystemDiagramCard entity None =
     \<lparr>systemNodes = \<lparr>node_id = simplifiedEntityName entity\<rparr> #
        map (\<lambda>t. \<lparr>node_id = simplifiedEntityName t\<rparr>)
          (getEntityRelations entity RELATION_PART_OF (Some ''domain'')),
      systemEdges = edgesTo (simplifiedEntityName entity) ''part of''
          (getEntityRelations entity RELATION_PART_OF (Some ''domain''))\<rparr>"
  by (simp add: SystemDiagramCard_def Let_def forEach_pushEdge forEach_pushNode pushNode_def
      edgesTo_def)

lemma SystemDiagramCard_Some:
  "SystemDiagramCard entity (Some items) =
     \<lparr>systemNodes = systemNodes (SystemDiagramCard entity None) @
        map (\<lambda>item. \<lparr>node_id = simplifiedEntityName item\<rparr>) items,
      systemEdges = systemEdges (SystemDiagramCard entity None) @
        concat (map itemEdges items)\<rparr>"
  by (simp add: SystemDiagramCard_def Let_def fold_catalogItemStep)

lemma buildGraph_nodes:
  "fst (buildGraph rootEntity relatedEntities) =
     \<lparr>node_id = simplifiedEntityName rootEntity\<rparr> #
     map (\<lambda>t. \<lparr>node_id = simplifiedEntityName t\<rparr>)
       (getEntityRelations rootEntity RELATION_PART_OF (Some ''domain'')) @
     map (\<lambda>item. \<lparr>node_id = simplifiedEntityName item\<rparr>) relatedEntities"
  by (simp add: buildGraph_def Let_def SystemDiagramCard_Some SystemDiagramCard_None)

lemma buildGraph_edges:
  "snd (buildGraph rootEntity relatedEntities) =
     edgesTo (simplifiedEntityName rootEntity) ''part of''
       (getEntityRelations rootEntity RELATION_PART_OF (Some ''domain'')) @
     concat (map itemEdges relatedEntities)"
  by (simp add: buildGraph_def Let_def SystemDiagramCard_Some SystemDiagramCard_None)

section \<open>The examples, evaluated\<close>


lemma id_paymentsInShop: "simplifiedEntityName paymentsInShop = ''system:payments''"
  by code_simp

lemma id_checkoutComponent: "simplifiedEntityName checkoutComponent = ''component:checkout''"
  by code_simp


lemma id_shopRef: "simplifiedEntityName shopRef = ''domain:shop''"
  by code_simp

lemma domains_paymentsInShop:
  "getEntityRelations paymentsInShop RELATION_PART_OF (Some ''domain'') = [shopRef]"
  by code_simp

lemma graph_payments_checkout:
  "buildGraph paymentsSystem [checkoutComponent] =
     ([\<lparr>node_id = ''system:payments''\<rparr>, \<lparr>node_id = ''component:checkout''\<rparr>],
      [\<lparr>edge_from = ''component:checkout'', edge_to = ''component:cart'',
        edge_label = ''depends on''\<rparr>])"
  by code_simp

lemma graph_shop_twice:
  "buildGraph paymentsInShop [shopDomain] =
     ([\<lparr>node_id = ''system:payments''\<rparr>, \<lparr>node_id = ''domain:shop''\<rparr>,
       \<lparr>node_id = ''domain:shop''\<rparr>],
      [\<lparr>edge_from = ''system:payments'', edge_to = ''domain:shop'',
        edge_label = ''part of''\<rparr>])"
  by code_simp






section \<open>The claims about \<^verbatim>\<open>normalizeRef\<close>\<close>

lemma lower_serialized:
  "toLocaleLowerCase (serializeEntityRef ref) =
     toLocaleLowerCase (kind ref) @ '':'' @
     toLocaleLowerCase (case namespace ref of None \<Rightarrow> ENTITY_DEFAULT_NAMESPACE | Some n \<Rightarrow> n) @
     ''/'' @ toLocaleLowerCase (name ref)"
  by (simp only: serializeEntityRef_def lower_append lower_colon lower_slash)

text \<open>
  Claim C3. Let \<open>ns\<close> be the namespace of a reference, the default namespace when it is
  missing, and let kind, namespace and name hold neither \<^verbatim>\<open>:\<close> nor \<^verbatim>\<open>/\<close>, the two
  separators of a serialised reference (the spec leaves malformed references out of
  scope). Then \<^verbatim>\<open>simplifiedEntityName\<close> returns the lower case of \<^verbatim>\<open>kind:namespace/name\<close>,
  except that it returns the lower case of \<^verbatim>\<open>kind:name\<close>, without the namespace and its
  \<^verbatim>\<open>/\<close>, when the namespace equals the default namespace. References are compared by
  their normalized, lower-case form, so a namespace equals the default namespace when its
  lower case is \<^verbatim>\<open>default\<close>. Hence a reference with the default namespace has no
  \<^verbatim>\<open>/\<close> before its name, and one with any other namespace keeps \<^verbatim>\<open>namespace/name\<close>.
\<close>

theorem simplifiedEntityName_plain:
  assumes "ns = (case namespace ref of None \<Rightarrow> ENTITY_DEFAULT_NAMESPACE | Some n \<Rightarrow> n)"
    and "plainPart (kind ref)" and "plainPart ns" and "plainPart (name ref)"
  shows "simplifiedEntityName ref =
     (if toLocaleLowerCase ns = ENTITY_DEFAULT_NAMESPACE
      then toLocaleLowerCase (kind ref) @ '':'' @ toLocaleLowerCase (name ref)
      else toLocaleLowerCase (kind ref) @ '':'' @ toLocaleLowerCase ns @ ''/'' @
           toLocaleLowerCase (name ref))"
proof -
  have k: "CHR '':'' \<notin> set (toLocaleLowerCase (kind ref))"
    using assms(2) by (simp add: plainPart_def colon_in_lower)
  have n: "CHR '':'' \<notin> set (toLocaleLowerCase ns)" "CHR ''/'' \<notin> set (toLocaleLowerCase ns)"
    using assms(3) by (simp_all add: plainPart_def colon_in_lower slash_in_lower)
  have m: "CHR '':'' \<notin> set (toLocaleLowerCase (name ref))"
    using assms(4) by (simp add: plainPart_def colon_in_lower)
  have "simplifiedEntityName ref =
      replace '':default/'' '':'' (toLocaleLowerCase (kind ref) @ '':'' @
        toLocaleLowerCase ns @ ''/'' @ toLocaleLowerCase (name ref))"
    unfolding simplifiedEntityName_def lower_serialized assms(1) ..
  also have "\<dots> = (if toLocaleLowerCase ns = ''default''
      then toLocaleLowerCase (kind ref) @ '':'' @ toLocaleLowerCase (name ref)
      else toLocaleLowerCase (kind ref) @ '':'' @ toLocaleLowerCase ns @ ''/'' @
           toLocaleLowerCase (name ref))"
    using k n m by (rule replace_default_segment)
  finally show ?thesis
    by (simp only: ENTITY_DEFAULT_NAMESPACE_def)
qed

text \<open>
  The theorem at four references: the default namespace written out, written with a
  capital, another namespace, and a missing namespace.
\<close>

theorem simplifiedEntityName_plain_witness:
  "simplifiedEntityName \<lparr>kind = ''Component'', namespace = Some ''default'', name = ''Cart''\<rparr>
     = ''component:cart'' \<and>
   simplifiedEntityName \<lparr>kind = ''Resource'', namespace = Some ''Default'', name = ''db''\<rparr>
     = ''resource:db'' \<and>
   simplifiedEntityName \<lparr>kind = ''API'', namespace = Some ''Team-A'', name = ''Orders''\<rparr>
     = ''api:team-a/orders'' \<and>
   simplifiedEntityName \<lparr>kind = ''Domain'', namespace = None, name = ''shop''\<rparr>
     = ''domain:shop''"
proof -
  have 1: "plainPart ''Component''" "plainPart ''Default''" "plainPart ''Cart''"
    "plainPart ''API''" "plainPart ''Team-A''" "plainPart ''Orders''"
    "plainPart ''Domain''" "plainPart ''default''" "plainPart ''shop''"
    "plainPart ''Resource''" "plainPart ''db''"
    by (simp_all add: plainPart_def)
  have 2: "toLocaleLowerCase ''Component'' = ''component''"
    "toLocaleLowerCase ''Default'' = ''default''"
    "toLocaleLowerCase ''Cart'' = ''cart''" "toLocaleLowerCase ''API'' = ''api''"
    "toLocaleLowerCase ''Team-A'' = ''team-a''" "toLocaleLowerCase ''Orders'' = ''orders''"
    "toLocaleLowerCase ''Domain'' = ''domain''" "toLocaleLowerCase ''shop'' = ''shop''"
    "toLocaleLowerCase ''Resource'' = ''resource''" "toLocaleLowerCase ''db'' = ''db''"
    by code_simp+
  show ?thesis
    using simplifiedEntityName_plain [of "''default''"
        "\<lparr>kind = ''Component'', namespace = Some ''default'', name = ''Cart''\<rparr>"]
      simplifiedEntityName_plain [of "''Default''"
        "\<lparr>kind = ''Resource'', namespace = Some ''Default'', name = ''db''\<rparr>"]
      simplifiedEntityName_plain [of "''Team-A''"
        "\<lparr>kind = ''API'', namespace = Some ''Team-A'', name = ''Orders''\<rparr>"]
      simplifiedEntityName_plain [of "''default''"
        "\<lparr>kind = ''Domain'', namespace = None, name = ''shop''\<rparr>"]
    by (simp add: 1 2 lower_default ENTITY_DEFAULT_NAMESPACE_def)
qed




section \<open>The claims about \<^verbatim>\<open>buildGraph\<close>\<close>

text \<open>
  Claim C1, amended. For the root \<^verbatim>\<open>system:default/payments\<close> without relations and the one
  related entity \<^verbatim>\<open>component:default/checkout\<close> with its single "depends on" relation to
  \<^verbatim>\<open>component:default/cart\<close>, the node list is \<^verbatim>\<open>system:payments\<close>, \<^verbatim>\<open>component:checkout\<close>
  and the edge list is the one edge from \<^verbatim>\<open>component:checkout\<close> to \<^verbatim>\<open>component:cart\<close> with
  the label "depends on". The target of the relation is not in the related-entity list: it
  is the end of an edge and has no node of its own.
\<close>

theorem buildGraph_payments_example:
  "buildGraph paymentsSystem [checkoutComponent] =
     ([\<lparr>node_id = ''system:payments''\<rparr>, \<lparr>node_id = ''component:checkout''\<rparr>],
      [\<lparr>edge_from = ''component:checkout'', edge_to = ''component:cart'',
        edge_label = ''depends on''\<rparr>]) \<and>
   \<lparr>node_id = ''component:cart''\<rparr> \<notin> set (fst (buildGraph paymentsSystem [checkoutComponent]))"
  by (simp add: graph_payments_checkout)

text \<open>
  Claim C1 as stated fails: the node list of the example is not the list of three nodes
  that ends with \<^verbatim>\<open>component:cart\<close>. Lines 104 to 106 push a node for the related entity
  only; lines 140 to 146 push edges.
\<close>

theorem buildGraph_payments_counterexample:
  "fst (buildGraph paymentsSystem [checkoutComponent]) \<noteq>
     [\<lparr>node_id = ''system:payments''\<rparr>, \<lparr>node_id = ''component:checkout''\<rparr>,
      \<lparr>node_id = ''component:cart''\<rparr>]"
  by (simp add: graph_payments_checkout)

text \<open>
  Claim C2, amended. The node list has one entry for each push: the root, each domain
  target of the root, each related entity. Its length is one plus the number of those
  targets plus the number of related entities, and its ids are pairwise different exactly
  when the ids pushed are; a related entity whose id is already there adds a second entry.
\<close>

theorem buildGraph_nodes_one_per_push:
  "length (fst (buildGraph rootEntity relatedEntities)) =
     1 + length (getEntityRelations rootEntity RELATION_PART_OF (Some ''domain'')) +
     length relatedEntities \<and>
   distinct (map node_id (fst (buildGraph rootEntity relatedEntities))) =
     distinct (simplifiedEntityName rootEntity #
       map simplifiedEntityName
         (getEntityRelations rootEntity RELATION_PART_OF (Some ''domain'')) @
       map simplifiedEntityName relatedEntities)"
  by (simp add: buildGraph_nodes comp_def)

theorem buildGraph_nodes_one_per_push_witness:
  "length (fst (buildGraph paymentsInShop [checkoutComponent])) = 3 \<and>
   distinct (map node_id (fst (buildGraph paymentsInShop [checkoutComponent])))"
  using buildGraph_nodes_one_per_push [of paymentsInShop "[checkoutComponent]"]
  by (simp add: domains_paymentsInShop id_shopRef id_paymentsInShop id_checkoutComponent)

text \<open>
  Claim C2 as stated fails: the root is part of the domain \<^verbatim>\<open>domain:default/shop\<close> and the
  related-entity list holds that domain, so \<^verbatim>\<open>domain:shop\<close> is pushed at line 90 and again
  at line 104.
\<close>

theorem buildGraph_duplicate_counterexample:
  "\<not> distinct (map node_id (fst (buildGraph paymentsInShop [shopDomain])))"
  by (simp add: graph_shop_twice)

text \<open>
  Claim C5. For every "part of" relation of the root whose target is of kind domain, the
  node list holds a node with the target's normalized id and the edge list holds the edge
  from the root's id to that id with the label "part of", whatever the related-entity list
  is: the domain is not looked up in it.
\<close>

theorem buildGraph_root_domain:
  assumes "r \<in> set (relations rootEntity)"
    and "rtype r = RELATION_PART_OF"
    and "toLocaleLowerCase (kind (target r)) = ''domain''"
  shows "\<lparr>node_id = simplifiedEntityName (target r)\<rparr>
           \<in> set (fst (buildGraph rootEntity relatedEntities)) \<and>
         \<lparr>edge_from = simplifiedEntityName rootEntity,
          edge_to = simplifiedEntityName (target r),
          edge_label = ''part of''\<rparr> \<in> set (snd (buildGraph rootEntity relatedEntities))"
proof -
  have "target r \<in> set (getEntityRelations rootEntity RELATION_PART_OF (Some ''domain''))"
    using assms by (auto simp add: getEntityRelations_def Let_def lower_domain)
  then show ?thesis
    by (auto simp add: buildGraph_nodes buildGraph_edges edgesTo_def image_iff)
qed

text \<open>The theorem with an empty related-entity list: the domain is absent from it.\<close>

theorem buildGraph_root_domain_witness:
  "\<lparr>node_id = ''domain:shop''\<rparr> \<in> set (fst (buildGraph paymentsInShop [])) \<and>
   \<lparr>edge_from = ''system:payments'', edge_to = ''domain:shop'', edge_label = ''part of''\<rparr>
     \<in> set (snd (buildGraph paymentsInShop []))"
proof -
  let ?r = "\<lparr>rtype = RELATION_PART_OF, target = shopRef\<rparr>"
  have 1: "?r \<in> set (relations paymentsInShop)"
    by (simp add: paymentsInShop_def)
  have 2: "rtype ?r = RELATION_PART_OF"
    by simp
  have 3: "toLocaleLowerCase (kind (target ?r)) = ''domain''"
    by (simp add: shopRef_def lower_domain)
  show ?thesis
    using buildGraph_root_domain [OF 1 2 3, of "[]"]
    by (simp add: id_shopRef id_paymentsInShop)
qed

text \<open>
  Claim C6. For every input the node list starts with the node of the root's normalized
  id; so that id is in the list, first.
\<close>

theorem buildGraph_root_first:
  "\<exists>rest. fst (buildGraph rootEntity relatedEntities) =
     \<lparr>node_id = simplifiedEntityName rootEntity\<rparr> # rest"
  by (simp add: buildGraph_nodes)

text \<open>
  Claim C7. Every edge of the output has one of the three labels "part of",
  "provides API", "depends on".
\<close>

theorem buildGraph_labels:
  "\<forall>e \<in> set (snd (buildGraph rootEntity relatedEntities)).
     edge_label e \<in> {''part of'', ''provides API'', ''depends on''}"
  by (auto simp add: buildGraph_edges itemEdges_def edgesTo_def)

theorem buildGraph_labels_witness:
  "edge_label \<lparr>edge_from = ''component:checkout'', edge_to = ''component:cart'',
      edge_label = ''depends on''\<rparr> \<in> {''part of'', ''provides API'', ''depends on''}"
proof -
  have "\<lparr>edge_from = ''component:checkout'', edge_to = ''component:cart'',
      edge_label = ''depends on''\<rparr> \<in> set (snd (buildGraph paymentsSystem [checkoutComponent]))"
    by (simp add: graph_payments_checkout)
  with buildGraph_labels [of paymentsSystem "[checkoutComponent]"] show ?thesis
    by (rule bspec)
qed




text \<open>
  Claim C9. The output follows the order of the pushes: the nodes are the root, then the
  root's domain targets in relation order, then the related entities in input order; the
  edges are the root's "part of" edges to its domains, then for each related entity in
  input order its "part of" edges, its "provides API" edges and its "depends on" edges,
  each group in the relation order of that entity.
\<close>

theorem buildGraph_insertion_order:
  "buildGraph rootEntity relatedEntities =
     (\<lparr>node_id = simplifiedEntityName rootEntity\<rparr> #
      map (\<lambda>foundDomain. \<lparr>node_id = simplifiedEntityName foundDomain\<rparr>)
        (getEntityRelations rootEntity RELATION_PART_OF (Some ''domain'')) @
      map (\<lambda>catalogItem. \<lparr>node_id = simplifiedEntityName catalogItem\<rparr>) relatedEntities,
      map (\<lambda>foundDomain. \<lparr>edge_from = simplifiedEntityName rootEntity,
             edge_to = simplifiedEntityName foundDomain, edge_label = ''part of''\<rparr>)
        (getEntityRelations rootEntity RELATION_PART_OF (Some ''domain'')) @
      concat (map (\<lambda>catalogItem.
        map (\<lambda>foundRelation. \<lparr>edge_from = simplifiedEntityName catalogItem,
               edge_to = simplifiedEntityName foundRelation, edge_label = ''part of''\<rparr>)
          (getEntityRelations catalogItem RELATION_PART_OF None) @
        map (\<lambda>foundRelation. \<lparr>edge_from = simplifiedEntityName catalogItem,
               edge_to = simplifiedEntityName foundRelation, edge_label = ''provides API''\<rparr>)
          (getEntityRelations catalogItem RELATION_PROVIDES_API None) @
        map (\<lambda>foundRelation. \<lparr>edge_from = simplifiedEntityName catalogItem,
               edge_to = simplifiedEntityName foundRelation, edge_label = ''depends on''\<rparr>)
          (getEntityRelations catalogItem RELATION_DEPENDS_ON None)) relatedEntities))"
proof -
  have "itemEdges = (\<lambda>catalogItem.
        map (\<lambda>foundRelation. \<lparr>edge_from = simplifiedEntityName catalogItem,
               edge_to = simplifiedEntityName foundRelation, edge_label = ''part of''\<rparr>)
          (getEntityRelations catalogItem RELATION_PART_OF None) @
        map (\<lambda>foundRelation. \<lparr>edge_from = simplifiedEntityName catalogItem,
               edge_to = simplifiedEntityName foundRelation, edge_label = ''provides API''\<rparr>)
          (getEntityRelations catalogItem RELATION_PROVIDES_API None) @
        map (\<lambda>foundRelation. \<lparr>edge_from = simplifiedEntityName catalogItem,
               edge_to = simplifiedEntityName foundRelation, edge_label = ''depends on''\<rparr>)
          (getEntityRelations catalogItem RELATION_DEPENDS_ON None))"
    by (rule ext) (simp add: itemEdges_def edgesTo_def)
  then show ?thesis
    using buildGraph_nodes [of rootEntity relatedEntities]
      buildGraph_edges [of rootEntity relatedEntities]
    by (simp add: prod_eq_iff edgesTo_def)
qed

text \<open>
  Claim C10. The start of every edge of the output is the id of a node of the output: it is
  the root's id or the id of a related entity, and both are pushed as nodes. (The end of an
  edge need not be: in the example of claim C1 \<^verbatim>\<open>component:cart\<close> is no node.)
\<close>

theorem buildGraph_edge_from_node:
  "\<forall>e \<in> set (snd (buildGraph rootEntity relatedEntities)).
     edge_from e \<in> node_id ` set (fst (buildGraph rootEntity relatedEntities))"
proof
  fix e
  assume "e \<in> set (snd (buildGraph rootEntity relatedEntities))"
  then consider
      (root) "e \<in> set (edgesTo (simplifiedEntityName rootEntity) ''part of''
         (getEntityRelations rootEntity RELATION_PART_OF (Some ''domain'')))"
    | (item) item where "item \<in> set relatedEntities" and "e \<in> set (itemEdges item)"
    by (auto simp add: buildGraph_edges)
  then show "edge_from e \<in> node_id ` set (fst (buildGraph rootEntity relatedEntities))"
  proof cases
    case root
    then have "edge_from e = simplifiedEntityName rootEntity"
      by (auto simp add: edgesTo_def)
    then show ?thesis
      by (simp add: buildGraph_nodes)
  next
    case item
    from item(2) have "edge_from e = simplifiedEntityName item"
      by (auto simp add: itemEdges_def edgesTo_def)
    moreover from item(1) have "\<lparr>node_id = simplifiedEntityName item\<rparr>
        \<in> set (fst (buildGraph rootEntity relatedEntities))"
      by (simp add: buildGraph_nodes)
    then have "node_id \<lparr>node_id = simplifiedEntityName item\<rparr>
        \<in> node_id ` set (fst (buildGraph rootEntity relatedEntities))"
      by (rule imageI)
    ultimately show ?thesis
      by simp
  qed
qed

theorem buildGraph_edge_from_node_witness:
  "edge_from \<lparr>edge_from = ''component:checkout'', edge_to = ''component:cart'',
      edge_label = ''depends on''\<rparr>
     \<in> node_id ` set (fst (buildGraph paymentsSystem [checkoutComponent]))"
proof -
  have "\<lparr>edge_from = ''component:checkout'', edge_to = ''component:cart'',
      edge_label = ''depends on''\<rparr> \<in> set (snd (buildGraph paymentsSystem [checkoutComponent]))"
    by (simp add: graph_payments_checkout)
  with buildGraph_edge_from_node [of paymentsSystem "[checkoutComponent]"] show ?thesis
    by (rule bspec)
qed

lemma edge_to_without_node:
  "\<lparr>edge_from = ''component:checkout'', edge_to = ''component:cart'',
      edge_label = ''depends on''\<rparr> \<in> set (snd (buildGraph paymentsSystem [checkoutComponent])) \<and>
   ''component:cart'' \<notin> node_id ` set (fst (buildGraph paymentsSystem [checkoutComponent]))"
  by (simp add: graph_payments_checkout)

end
